theory Spec2Isabelle
  imports Complex_Main "HOL-Library.AList"
begin

section \<open>ID Analyzer client library (idanalyzer.py): values, strings and patterns\<close>

text \<open>
  The library is Python. A Python \<open>str\<close> is modelled as a \<open>string\<close> whose characters are
  the code points 0 to 255 (one \<open>char\<close> per code point); the bytes of a file are a
  \<open>string\<close> too (one \<open>char\<close> per byte). A Python \<open>float\<close> is modelled by the rational
  number it denotes, which is all that the comparisons of the library look at.
\<close>

subsection \<open>Python values\<close>

text \<open>
  \<open>VRef a\<close> is a reference to a mutable \<open>dict\<close> object living at address \<open>a\<close> of the
  store: the configuration dictionaries and the dictionaries a caller hands over are
  such objects, and two references to one address are aliases. \<open>VDict kvs\<close> is a
  dictionary that nothing mutates (a decoded JSON reply), kept as a value.
  A dictionary is an association list in insertion order.
\<close>

datatype pyval =
    VNone
  | VBool bool
  | VInt int
  | VFloat rat
  | VStr string
  | VBytes string
  | VList "pyval list"
  | VDict "(string \<times> pyval) list"
  | VRef nat

type_synonym dict = "(string \<times> pyval) list"

text \<open>\<open>d.get(k)\<close>: the value stored under \<open>k\<close>, \<open>None\<close> when the key is missing.\<close>

definition dict_get :: "dict \<Rightarrow> string \<Rightarrow> pyval" where
  "dict_get d k = (case map_of d k of Some v \<Rightarrow> v | None \<Rightarrow> VNone)"

text \<open>\<open>d[k] = v\<close>: overwrite in place, or append a new key at the end.\<close>

definition set_item :: "dict \<Rightarrow> string \<Rightarrow> pyval \<Rightarrow> dict" where
  "set_item d k v = AList.update k v d"

text \<open>Python equality of a value with an integer literal (\<open>True == 1\<close>, \<open>1.0 == 1\<close>).\<close>

fun eq_int :: "pyval \<Rightarrow> int \<Rightarrow> bool" where
  "eq_int (VBool b) n = ((if b then 1 else 0) = n)"
| "eq_int (VInt i) n = (i = n)"
| "eq_int (VFloat r) n = (r = of_int n)"
| "eq_int _ n = False"

text \<open>\<open>x is True\<close>: identity with the singleton \<open>True\<close>.\<close>

definition is_True :: "pyval \<Rightarrow> bool" where
  "is_True v = (v = VBool True)"

subsection \<open>Character classes\<close>

definition lower_az :: string where
  "lower_az = ''abcdefghijklmnopqrstuvwxyz''"

definition upper_AZ :: string where
  "upper_AZ = ''ABCDEFGHIJKLMNOPQRSTUVWXYZ''"

definition digit_09 :: string where
  "digit_09 = ''0123456789''"

text \<open>
  \<open>\w\<close> of a Python 3 \<open>str\<close> pattern: alphanumeric code points and the underscore.
  Below 256 these are the ASCII ones and the listed Latin-1 letters and digits.
\<close>

definition word_char :: "char \<Rightarrow> bool" where
  "word_char c =
     (c \<in> set (lower_az @ upper_AZ @ digit_09 @ ''_'') \<or>
      (let n = (of_char c :: nat) in
         n = 0xAA \<or> n = 0xB2 \<or> n = 0xB3 \<or> n = 0xB5 \<or> n = 0xB9 \<or> n = 0xBA \<or>
         (0xBC \<le> n \<and> n \<le> 0xBE) \<or> (0xC0 \<le> n \<and> n \<noteq> 0xD7 \<and> n \<noteq> 0xF7)))"

text \<open>\<open>[-a-zA-Z0-9@:%._+~#=]\<close>\<close>

definition url_host_char :: "char \<Rightarrow> bool" where
  "url_host_char c = (c \<in> set (''-'' @ lower_az @ upper_AZ @ digit_09 @ ''@:%._+~#=''))"

text \<open>\<open>[-a-zA-Z0-9@:%_+.~#?&/=]\<close>\<close>

definition url_tail_char :: "char \<Rightarrow> bool" where
  "url_tail_char c = (c \<in> set (''-'' @ lower_az @ upper_AZ @ digit_09 @ ''@:%_+.~#?&/=''))"

text \<open>\<open>[0-9a-fA-F]\<close>\<close>

definition hex_char :: "char \<Rightarrow> bool" where
  "hex_char c = (c \<in> set (digit_09 @ ''abcdef'' @ ''ABCDEF''))"

text \<open>\<open>\d\<close> (below 256 the decimal digits are the ASCII ones) and \<open>.\<close> (all but newline).\<close>

definition dec_digit :: "char \<Rightarrow> bool" where
  "dec_digit c = (c \<in> set digit_09)"

definition not_newline :: "char \<Rightarrow> bool" where
  "not_newline c = (c \<noteq> CHR 0x0A)"

subsection \<open>Regular expressions and \<open>re.search\<close>\<close>

text \<open>
  The patterns of the library use character classes, literals, \<open>^\<close>, \<open>$\<close>, \<open>\b\<close>,
  sequencing, bounded repetition (\<open>?\<close> is \<open>{0,1}\<close>) and a starred character class.
  Groups only capture, so they are left out. \<open>ends r s i\<close> lists every position \<open>j\<close> such
  that \<open>r\<close> matches \<open>s\<close> from position \<open>i\<close> up to \<open>j\<close>; \<open>re.search\<close> finds a match iff some
  start position has an end.
\<close>

datatype regex =
    Eps
  | Chars "char \<Rightarrow> bool"
  | Bol
  | Eol
  | WordB
  | Seq regex regex
  | Rep nat nat regex
  | StarC "char \<Rightarrow> bool"

text \<open>Between \<open>lo\<close> and \<open>hi\<close> applications of one step, starting at \<open>i\<close>.\<close>

fun iter :: "(nat \<Rightarrow> nat list) \<Rightarrow> nat \<Rightarrow> nat \<Rightarrow> nat \<Rightarrow> nat list" where
  "iter step lo 0 i = (if lo = 0 then [i] else [])"
| "iter step lo (Suc hi) i =
     (if lo = 0 then [i] else []) @ concat (map (iter step (lo - 1) hi) (step i))"

text \<open>Is there a word character at index \<open>i\<close> of \<open>s\<close>? (Outside the string there is none.)\<close>

definition word_at :: "string \<Rightarrow> nat \<Rightarrow> bool" where
  "word_at s i = (i < length s \<and> word_char (s ! i))"

fun ends :: "regex \<Rightarrow> string \<Rightarrow> nat \<Rightarrow> nat list" where
  "ends Eps s i = [i]"
| "ends (Chars p) s i = (if i < length s \<and> p (s ! i) then [Suc i] else [])"
| "ends Bol s i = (if i = 0 then [i] else [])"
| "ends Eol s i =
     (if i = length s \<or> (Suc i = length s \<and> s ! i = CHR 0x0A) then [i] else [])"
| "ends WordB s i =
     (if (0 < i \<and> word_at s (i - 1)) \<noteq> word_at s i then [i] else [])"
| "ends (Seq a b) s i = concat (map (ends b s) (ends a s i))"
| "ends (Rep lo hi r) s i = iter (\<lambda>j. ends r s j) lo hi i"
| "ends (StarC p) s i = map (\<lambda>k. i + k) [0..<Suc (length (takeWhile p (drop i s)))]"

definition re_search :: "regex \<Rightarrow> string \<Rightarrow> bool" where
  "re_search r s = list_ex (\<lambda>i. ends r s i \<noteq> []) [0..<Suc (length s)]"

fun lit :: "string \<Rightarrow> regex" where
  "lit [] = Eps"
| "lit (c # cs) = Seq (Chars ((=) c)) (lit cs)"

text \<open>
  \<^verbatim>\<open>(http(s)?://.)(www\.)?[-a-zA-Z0-9@:%._+~#=]{2,256}\.[a-z]{2,6}\b([-a-zA-Z0-9@:%_+.~#?&/=]*)\<close>
\<close>

definition url_pattern :: regex where
  "url_pattern =
     Seq (lit ''http'') (Seq (Rep 0 1 (lit ''s'')) (Seq (lit ''://'') (Seq (Chars not_newline)
     (Seq (Rep 0 1 (lit ''www.''))
     (Seq (Rep 2 256 (Chars url_host_char))
     (Seq (lit ''.'')
     (Seq (Rep 2 6 (Chars (\<lambda>c. c \<in> set lower_az)))
     (Seq WordB (StarC url_tail_char)))))))))"

definition is_valid_url :: "string \<Rightarrow> bool" where
  "is_valid_url string = re_search url_pattern string"

text \<open>\<^verbatim>\<open>^#(?:[0-9a-fA-F]{3}){1,2}$\<close>\<close>

definition hex_color_pattern :: regex where
  "hex_color_pattern =
     Seq Bol (Seq (lit ''#'') (Seq (Rep 1 2 (Rep 3 3 (Chars hex_char))) Eol))"

definition is_hex_color :: "string \<Rightarrow> bool" where
  "is_hex_color string = re_search hex_color_pattern string"

text \<open>\<^verbatim>\<open>^(\d{4}/\d{2}/\d{2})$\<close>, \<^verbatim>\<open>^(\d+-\d+)$\<close> and \<^verbatim>\<open>^([0-9]{4})$\<close>\<close>

definition dob_pattern :: regex where
  "dob_pattern =
     Seq Bol (Seq (Rep 4 4 (Chars dec_digit)) (Seq (lit ''/'')
     (Seq (Rep 2 2 (Chars dec_digit)) (Seq (lit ''/'')
     (Seq (Rep 2 2 (Chars dec_digit)) Eol)))))"

text \<open>\<^verbatim>\<open>^(\d+-\d+)$\<close> (\<open>\d+\<close> is one digit and a starred digit class)\<close>

definition age_pattern :: regex where
  "age_pattern =
     Seq Bol (Seq (Chars dec_digit) (Seq (StarC dec_digit) (Seq (lit ''-'')
     (Seq (Chars dec_digit) (Seq (StarC dec_digit) Eol)))))"

text \<open>\<^verbatim>\<open>^([0-9]{4})$\<close>\<close>

definition passcode_pattern :: regex where
  "passcode_pattern = Seq Bol (Seq (Rep 4 4 (Chars (\<lambda>c. c \<in> set digit_09))) Eol)"

subsection \<open>\<open>str.upper\<close> and \<open>base64.b64encode\<close>\<close>

text \<open>
  \<open>str.upper\<close> on code points below 256: \<open>a\<close> to \<open>z\<close> and the Latin-1 lower-case letters
  move down by 32 and the sharp s becomes \<open>SS\<close>. The micro sign and the y with diaeresis
  have upper-case forms beyond 255; they are left in place, which no comparison with an
  ASCII literal can tell apart.
\<close>

definition upper_cp :: "char \<Rightarrow> string" where
  "upper_cp c =
     (case map_of (zip lower_az upper_AZ) c of
        Some u \<Rightarrow> [u]
      | None \<Rightarrow>
          (let n = (of_char c :: nat) in
           if 0xE0 \<le> n \<and> n \<le> 0xFE \<and> n \<noteq> 0xF7 then [char_of (n - 32)]
           else if n = 0xDF then ''SS''
           else [c]))"

definition upper :: "string \<Rightarrow> string" where
  "upper s = concat (map upper_cp s)"

definition b64_alphabet :: string where
  "b64_alphabet = ''ABCDEFGHIJKLMNOPQRSTUVWXYZabcdefghijklmnopqrstuvwxyz0123456789+/''"

definition b64_digit :: "nat \<Rightarrow> char" where
  "b64_digit n = b64_alphabet ! (n mod 64)"

fun b64encode :: "string \<Rightarrow> string" where
  "b64encode [] = []"
| "b64encode [a] =
     (let x = (of_char a :: nat) in
      [b64_digit (x div 4), b64_digit ((x mod 4) * 16), CHR ''='', CHR ''=''])"
| "b64encode [a, b] =
     (let x = (of_char a :: nat); y = (of_char b :: nat) in
      [b64_digit (x div 4), b64_digit ((x mod 4) * 16 + y div 16),
       b64_digit ((y mod 16) * 4), CHR ''=''])"
| "b64encode (a # b # c # rest) =
     (let x = (of_char a :: nat); y = (of_char b :: nat); z = (of_char c :: nat) in
      [b64_digit (x div 4), b64_digit ((x mod 4) * 16 + y div 16),
       b64_digit ((y mod 16) * 4 + z div 64), b64_digit (z mod 64)]) @ b64encode rest"

section \<open>The world around a call: store, files, network\<close>

text \<open>
  \<open>cells\<close> is the store of dictionary objects (address to contents; \<open>next_addr\<close> is the
  first free address), \<open>files\<close> maps the path of each readable regular file to its bytes,
  and \<open>posted\<close> is the log of the requests handed to \<open>requests.post\<close>: the URL and the
  contents of the \<open>data\<close> dictionary at that moment.
\<close>

record world =
  cells :: "nat \<Rightarrow> dict"
  next_addr :: nat
  files :: "string \<Rightarrow> string option"
  posted :: "(string \<times> dict) list"

datatype error =
    ValueError string
  | TypeError
  | AttributeError
  | ConnectionError
  | HTTPError nat
  | JSONDecodeError
  | APIError pyval

text \<open>
  What the network does with the one request of a call: no answer at all, or a final
  response with a status code and a body; the body is given as \<open>r.json()\<close> decodes it,
  \<open>None\<close> when it is not JSON.
\<close>

datatype reply = NetworkFailure | Response nat "pyval option"

text \<open>Python truthiness (\<open>if x\<close>, \<open>not x\<close>).\<close>

fun truthy :: "world \<Rightarrow> pyval \<Rightarrow> bool" where
  "truthy w VNone = False"
| "truthy w (VBool b) = b"
| "truthy w (VInt i) = (i \<noteq> 0)"
| "truthy w (VFloat r) = (r \<noteq> 0)"
| "truthy w (VStr s) = (s \<noteq> [])"
| "truthy w (VBytes s) = (s \<noteq> [])"
| "truthy w (VList xs) = (xs \<noteq> [])"
| "truthy w (VDict kvs) = (kvs \<noteq> [])"
| "truthy w (VRef a) = (cells w a \<noteq> [])"

text \<open>\<open>obj[k] = v\<close> on the dictionary object at address \<open>a\<close>.\<close>

definition store_item :: "world \<Rightarrow> nat \<Rightarrow> string \<Rightarrow> pyval \<Rightarrow> world" where
  "store_item w a k v = w\<lparr>cells := (cells w)(a := set_item (cells w a) k v)\<rparr>"

text \<open>A dictionary display \<open>{...}\<close>: a new object at the first free address.\<close>

definition alloc :: "dict \<Rightarrow> world \<Rightarrow> nat \<times> world" where
  "alloc d w =
     (next_addr w, w\<lparr>cells := (cells w)(next_addr w := d), next_addr := Suc (next_addr w)\<rparr>)"

text \<open>\<open>os.path.isfile\<close>\<close>

definition isfile :: "world \<Rightarrow> string \<Rightarrow> bool" where
  "isfile w path = (files w path \<noteq> None)"

text \<open>\<open>open(path, "rb").read()\<close> of a file that \<open>isfile\<close> found.\<close>

definition read_file :: "world \<Rightarrow> string \<Rightarrow> string" where
  "read_file w path = (case files w path of Some bytes \<Rightarrow> bytes | None \<Rightarrow> [])"

subsection \<open>Sending the request and reading the reply\<close>

text \<open>
  \<open>requests.post\<close>, \<open>raise_for_status\<close> (of the \<open>requests\<close> library: an \<open>HTTPError\<close> for
  a status from 400 to 599), \<open>r.json()\<close> and the check of the \<open>error\<close> entry. The same
  lines close \<open>CoreAPI.scan\<close>, \<open>DocuPass.create_signature\<close>, \<open>DocuPass.__create\<close>,
  \<open>Vault.__api\<close> and \<open>AMLAPI.__api\<close>:
  \<^verbatim>\<open>
    r = requests.post(url, data=payload)
    r.raise_for_status()
    result = r.json()
    if not self.throw_error:
        return result
    if result.get('error'):
        raise APIError(result['error'])
    else:
        return result
  \<close>
\<close>

definition raise_for_status :: "nat \<Rightarrow> bool" where
  "raise_for_status code = (400 \<le> code \<and> code < 600)"

definition requests_post :: "string \<Rightarrow> nat \<Rightarrow> world \<Rightarrow> world" where
  "requests_post url payload w = w\<lparr>posted := posted w @ [(url, cells w payload)]\<rparr>"

definition check_result :: "bool \<Rightarrow> pyval \<Rightarrow> world \<Rightarrow> error + pyval" where
  "check_result throw result w =
     (if \<not> throw then Inr result
      else case result of
          VDict kvs \<Rightarrow>
            if truthy w (dict_get kvs ''error'') then Inl (APIError (dict_get kvs ''error''))
            else Inr result
        | _ \<Rightarrow> Inl AttributeError)"

definition post_and_check ::
  "bool \<Rightarrow> string \<Rightarrow> nat \<Rightarrow> reply \<Rightarrow> world \<Rightarrow> (error + pyval) \<times> world" where
  "post_and_check throw url payload reply w =
     (let w' = requests_post url payload w in
      case reply of
        NetworkFailure \<Rightarrow> (Inl ConnectionError, w')
      | Response code body \<Rightarrow>
          if raise_for_status code then (Inl (HTTPError code), w')
          else (case body of
                  None \<Rightarrow> (Inl JSONDecodeError, w')
                | Some result \<Rightarrow> (check_result throw result w', w')))"

section \<open>Client objects\<close>

text \<open>
  All four classes keep \<open>apikey\<close>, \<open>throw_error\<close> and \<open>apiendpoint\<close>. \<open>CoreAPI\<close> and
  \<open>DocuPass\<close> add \<open>config\<close>, a reference to a dictionary object; \<open>AMLAPI\<close> adds its two
  filter strings.
\<close>

record client =
  apikey :: pyval
  throw_error :: bool
  apiendpoint :: string

record configured = client +
  config :: nat

record amlapi = client +
  AMLDatabases :: pyval
  AMLEntityType :: pyval

type_synonym CoreAPI = configured
type_synonym DocuPass = configured
type_synonym Vault = client
type_synonym AMLAPI = amlapi

definition client_library :: pyval where
  "client_library = VStr ''python-sdk''"

text \<open>
  The class attributes \<open>CoreAPI.DEFAULT_CONFIG\<close> and \<open>DocuPass.DEFAULT_CONFIG\<close> are two
  dictionary objects made once, when the module is loaded: addresses 0 and 1.
\<close>

definition CoreAPI_DEFAULT_CONFIG :: nat where
  "CoreAPI_DEFAULT_CONFIG = 0"

definition DocuPass_DEFAULT_CONFIG :: nat where
  "DocuPass_DEFAULT_CONFIG = 1"

definition CoreAPI_defaults :: dict where
  "CoreAPI_defaults =
    [(''accuracy'', VInt 2),
     (''authenticate'', VBool False),
     (''authenticate_module'', VInt 1),
     (''ocr_scaledown'', VInt 2000),
     (''outputimage'', VBool False),
     (''outputface'', VBool False),
     (''outputmode'', VStr ''url''),
     (''dualsidecheck'', VBool False),
     (''verify_expiry'', VBool True),
     (''verify_documentno'', VStr []),
     (''verify_name'', VStr []),
     (''verify_dob'', VStr []),
     (''verify_age'', VStr []),
     (''verify_address'', VStr []),
     (''verify_postcode'', VStr []),
     (''country'', VStr []),
     (''region'', VStr []),
     (''type'', VStr []),
     (''checkblocklist'', VStr []),
     (''vault_save'', VBool True),
     (''vault_saveunrecognized'', VStr []),
     (''vault_noduplicate'', VStr []),
     (''vault_automerge'', VStr []),
     (''vault_customdata1'', VStr []),
     (''vault_customdata2'', VStr []),
     (''vault_customdata3'', VStr []),
     (''vault_customdata4'', VStr []),
     (''vault_customdata5'', VStr []),
     (''barcodemode'', VBool False),
     (''biometric_threshold'', VFloat (4 / 10)),
     (''aml_check'', VBool False),
     (''aml_strict_match'', VBool False),
     (''aml_database'', VStr []),
     (''contract_generate'', VStr []),
     (''contract_format'', VStr []),
     (''contract_prefill_data'', VStr []),
     (''client'', client_library)]"

definition DocuPass_defaults :: dict where
  "DocuPass_defaults =
    [(''companyname'', VStr []),
     (''callbackurl'', VStr []),
     (''biometric'', VInt 0),
     (''authenticate_minscore'', VInt 0),
     (''authenticate_module'', VInt 2),
     (''maxattempt'', VInt 1),
     (''documenttype'', VStr []),
     (''documentcountry'', VStr []),
     (''documentregion'', VStr []),
     (''dualsidecheck'', VBool False),
     (''verify_expiry'', VBool False),
     (''verify_documentno'', VStr []),
     (''verify_name'', VStr []),
     (''verify_dob'', VStr []),
     (''verify_age'', VStr []),
     (''verify_address'', VStr []),
     (''verify_postcode'', VStr []),
     (''successredir'', VStr []),
     (''failredir'', VStr []),
     (''customid'', VStr []),
     (''vault_save'', VBool True),
     (''return_documentimage'', VBool True),
     (''return_faceimage'', VBool True),
     (''return_type'', VInt 1),
     (''qr_color'', VStr []),
     (''qr_bgcolor'', VStr []),
     (''qr_size'', VStr []),
     (''qr_margin'', VStr []),
     (''welcomemessage'', VStr []),
     (''nobranding'', VStr []),
     (''logo'', VStr []),
     (''language'', VStr []),
     (''biometric_threshold'', VFloat (4 / 10)),
     (''reusable'', VBool False),
     (''aml_check'', VBool False),
     (''aml_strict_match'', VBool False),
     (''aml_database'', VStr []),
     (''phoneverification'', VBool False),
     (''verify_phone'', VStr []),
     (''sms_verification_link'', VStr []),
     (''customhtmlurl'', VStr []),
     (''contract_generate'', VStr []),
     (''contract_sign'', VStr []),
     (''contract_format'', VStr []),
     (''contract_prefill_data'', VStr []),
     (''sms_contract_link'', VStr []),
     (''client'', client_library)]"

text \<open>The world right after \<open>import idanalyzer\<close>, over a given file system.\<close>

definition module_loaded :: "(string \<Rightarrow> string option) \<Rightarrow> world" where
  "module_loaded fs =
     \<lparr>cells = (\<lambda>a. if a = CoreAPI_DEFAULT_CONFIG then CoreAPI_defaults
                    else if a = DocuPass_DEFAULT_CONFIG then DocuPass_defaults else []),
      next_addr = 2, files = fs, posted = []\<rparr>"

text \<open>
  The choice of the endpoint, as each \<open>__init__\<close> makes it (\<open>AMLAPI\<close> with its own two
  URLs):
  \<^verbatim>\<open>
    if region.upper() == "EU":   self.apiendpoint = eu
    elif region.upper() == "US": self.apiendpoint = us
    else:                        self.apiendpoint = region
  \<close>
\<close>

definition select_endpoint :: "string \<Rightarrow> string \<Rightarrow> string \<Rightarrow> string" where
  "select_endpoint eu us region =
     (if upper region = ''EU'' then eu
      else if upper region = ''US'' then us
      else region)"

subsection \<open>Helpers for the argument checks\<close>

text \<open>The number a value stands for in \<open><\<close> and \<open><=\<close>; other values raise \<open>TypeError\<close> there.\<close>

fun num_val :: "pyval \<Rightarrow> rat option" where
  "num_val (VBool b) = Some (if b then 1 else 0)"
| "num_val (VInt i) = Some (of_int i)"
| "num_val (VFloat r) = Some r"
| "num_val _ = None"

text \<open>\<open>x in range(lo, hi)\<close>: equal to one of the integers from \<open>lo\<close> up to \<open>hi - 1\<close>.\<close>

definition in_range :: "pyval \<Rightarrow> int \<Rightarrow> int \<Rightarrow> bool" where
  "in_range v lo hi = list_ex (eq_int v) [lo..hi - 1]"

text \<open>
  \<open>re.search(pattern, x)\<close> on an argument: a \<open>str\<close> is searched, anything else raises
  \<open>TypeError\<close>.
\<close>

definition search_arg :: "(string \<Rightarrow> bool) \<Rightarrow> pyval \<Rightarrow> error + bool" where
  "search_arg matches v = (case v of VStr s \<Rightarrow> Inr (matches s) | _ \<Rightarrow> Inl TypeError)"

text \<open>Run the rest of a method unless a statement before it raised.\<close>

definition and_then ::
  "(error + unit) \<times> world \<Rightarrow> (world \<Rightarrow> (error + 'a) \<times> world) \<Rightarrow> (error + 'a) \<times> world" where
  "and_then r f = (case r of (Inl e, w) \<Rightarrow> (Inl e, w) | (Inr u, w) \<Rightarrow> f w)"

section \<open>\<open>CoreAPI\<close>\<close>



definition CoreAPI_reset_config :: "CoreAPI \<Rightarrow> CoreAPI" where
  "CoreAPI_reset_config self = self\<lparr>config := CoreAPI_DEFAULT_CONFIG\<rparr>"

definition CoreAPI_set_accuracy :: "CoreAPI \<Rightarrow> pyval \<Rightarrow> world \<Rightarrow> (error + unit) \<times> world" where
  "CoreAPI_set_accuracy self accuracy w =
     (Inr (), store_item w (config self) ''accuracy'' accuracy)"

definition CoreAPI_enable_authentication ::
  "CoreAPI \<Rightarrow> pyval \<Rightarrow> pyval \<Rightarrow> world \<Rightarrow> (error + unit) \<times> world" where
  "CoreAPI_enable_authentication self enabled module' w =
     (let w1 = store_item w (config self) ''authenticate'' (VBool (is_True enabled)) in
      if truthy w1 enabled \<and> \<not> eq_int module' 1 \<and> \<not> eq_int module' 2 \<and> module' \<noteq> VStr ''quick''
      then (Inl (ValueError ''Invalid authentication module, 1, 2 or 'quick' accepted.''), w1)
      else (Inr (), store_item w1 (config self) ''authenticate_module'' module'))"

definition CoreAPI_set_ocr_image_resize ::
  "CoreAPI \<Rightarrow> pyval \<Rightarrow> world \<Rightarrow> (error + unit) \<times> world" where
  "CoreAPI_set_ocr_image_resize self max_scale w =
     (if eq_int max_scale 0 then (Inr (), store_item w (config self) ''ocr_scaledown'' max_scale)
      else case num_val max_scale of
          None \<Rightarrow> (Inl TypeError, w)
        | Some x \<Rightarrow>
            if x < 500 \<or> x > 4000
            then (Inl (ValueError ''Invalid scale value, 0, or 500 to 4000 accepted.''), w)
            else (Inr (), store_item w (config self) ''ocr_scaledown'' max_scale))"

definition CoreAPI_set_biometric_threshold ::
  "CoreAPI \<Rightarrow> pyval \<Rightarrow> world \<Rightarrow> (error + unit) \<times> world" where
  "CoreAPI_set_biometric_threshold self threshold w =
     (case num_val threshold of
        None \<Rightarrow> (Inl TypeError, w)
      | Some x \<Rightarrow>
          if x \<le> 0 \<or> x > 1
          then (Inl (ValueError ''Invalid threshold value, float between 0 to 1 accepted.''), w)
          else (Inr (), store_item w (config self) ''biometric_threshold'' threshold))"

definition CoreAPI_enable_image_output ::
  "CoreAPI \<Rightarrow> pyval \<Rightarrow> pyval \<Rightarrow> pyval \<Rightarrow> world \<Rightarrow> (error + unit) \<times> world" where
  "CoreAPI_enable_image_output self crop_document crop_face output_format w =
     (if output_format \<noteq> VStr ''url'' \<and> output_format \<noteq> VStr ''base64''
      then (Inl (ValueError ''Invalid output format, 'url' or 'base64' accepted.''), w)
      else
        (let w1 = store_item w (config self) ''outputimage'' (VBool (is_True crop_document));
             w2 = store_item w1 (config self) ''outputface'' (VBool (is_True crop_face))
         in (Inr (), store_item w2 (config self) ''outputmode'' output_format)))"

text \<open>
  \<open>verify_dob\<close> and \<open>verify_age\<close> have the same text in \<open>CoreAPI\<close> and in \<open>DocuPass\<close>.
\<close>

definition verify_dob :: "configured \<Rightarrow> pyval \<Rightarrow> world \<Rightarrow> (error + unit) \<times> world" where
  "verify_dob self dob w =
     (if \<not> truthy w dob then (Inr (), store_item w (config self) ''verify_dob'' (VStr []))
      else case search_arg (re_search dob_pattern) dob of
          Inl e \<Rightarrow> (Inl e, w)
        | Inr found \<Rightarrow>
            if \<not> found then (Inl (ValueError ''Invalid birthday format (YYYY/MM/DD)''), w)
            else (Inr (), store_item w (config self) ''verify_dob'' dob))"

definition verify_age :: "configured \<Rightarrow> pyval \<Rightarrow> world \<Rightarrow> (error + unit) \<times> world" where
  "verify_age self age_range w =
     (if \<not> truthy w age_range then (Inr (), store_item w (config self) ''verify_age'' (VStr []))
      else case search_arg (re_search age_pattern) age_range of
          Inl e \<Rightarrow> (Inl e, w)
        | Inr found \<Rightarrow>
            if \<not> found then (Inl (ValueError ''Invalid age range format (minAge-maxAge)''), w)
            else (Inr (), store_item w (config self) ''verify_age'' age_range))"

definition CoreAPI_generate_contract ::
  "CoreAPI \<Rightarrow> pyval \<Rightarrow> pyval \<Rightarrow> pyval \<Rightarrow> world \<Rightarrow> (error + unit) \<times> world" where
  "CoreAPI_generate_contract self template_id out_format prefill_data w =
     (let prefill = (if prefill_data = VNone then VDict [] else prefill_data) in
      if \<not> truthy w template_id then (Inl (ValueError ''Invalid template ID''), w)
      else
        (let w1 = store_item w (config self) ''contract_generate'' template_id;
             w2 = store_item w1 (config self) ''contract_format'' out_format
         in (Inr (), store_item w2 (config self) ''contract_prefill_data'' prefill)))"

definition set_parameter ::
  "configured \<Rightarrow> string \<Rightarrow> pyval \<Rightarrow> world \<Rightarrow> (error + unit) \<times> world" where
  "set_parameter self parameter_key parameter_value w =
     (Inr (), store_item w (config self) parameter_key parameter_value)"

subsection \<open>\<open>CoreAPI.scan\<close>\<close>

text \<open>
  \<open>scan\<close> is modelled block by block, in the order of the source. Each block reads
  one keyword argument and writes into \<open>payload\<close>, which is \<open>self.config\<close> itself
  (\<open>payload = self.config\<close> copies the reference, not the dictionary).
\<close>

definition scan_document_primary :: "CoreAPI \<Rightarrow> dict \<Rightarrow> world \<Rightarrow> (error + unit) \<times> world" where
  "scan_document_primary self options w =
     (let v = dict_get options ''document_primary''; payload = config self in
      if \<not> truthy w v then (Inl (ValueError ''Primary document image required.''), w)
      else case v of
          VStr s \<Rightarrow>
            if is_valid_url s then (Inr (), store_item w payload ''url'' v)
            else if isfile w s
              then (Inr (), store_item w payload ''file_base64'' (VBytes (b64encode (read_file w s))))
            else if length s > 100 then (Inr (), store_item w payload ''file_base64'' v)
            else (Inl (ValueError
                   ''Invalid primary document image, file not found or malformed URL.''), w)
        | _ \<Rightarrow> (Inl TypeError, w))"

definition scan_document_secondary :: "CoreAPI \<Rightarrow> dict \<Rightarrow> world \<Rightarrow> (error + unit) \<times> world" where
  "scan_document_secondary self options w =
     (let v = dict_get options ''document_secondary''; payload = config self in
      if \<not> truthy w v then (Inr (), w)
      else case v of
          VStr s \<Rightarrow>
            if is_valid_url s then (Inr (), store_item w payload ''url_back'' v)
            else if isfile w s
              then (Inr (), store_item w payload ''file_back_base64''
                              (VBytes (b64encode (read_file w s))))
            else if length s > 100 then (Inr (), store_item w payload ''file_back_base64'' v)
            else (Inl (ValueError
                   ''Invalid secondary document image, file not found or malformed URL.''), w)
        | _ \<Rightarrow> (Inl TypeError, w))"

definition scan_biometric_photo :: "CoreAPI \<Rightarrow> dict \<Rightarrow> world \<Rightarrow> (error + unit) \<times> world" where
  "scan_biometric_photo self options w =
     (let v = dict_get options ''biometric_photo''; payload = config self in
      if \<not> truthy w v then (Inr (), w)
      else case v of
          VStr s \<Rightarrow>
            if is_valid_url s then (Inr (), store_item w payload ''faceurl'' v)
            else if isfile w s
              then (Inr (), store_item w payload ''face_base64'' (VBytes (b64encode (read_file w s))))
            else if length s > 100 then (Inr (), store_item w payload ''face_base64'' v)
            else (Inl (ValueError ''Invalid face image, file not found or malformed URL.''), w)
        | _ \<Rightarrow> (Inl TypeError, w))"

text \<open>The video block: the video itself, then its passcode.\<close>

definition scan_video_file :: "CoreAPI \<Rightarrow> pyval \<Rightarrow> world \<Rightarrow> (error + unit) \<times> world" where
  "scan_video_file self v w =
     (let payload = config self in
      case v of
          VStr s \<Rightarrow>
            if is_valid_url s then (Inr (), store_item w payload ''videourl'' v)
            else if isfile w s
              then (Inr (), store_item w payload ''video_base64''
                              (VBytes (b64encode (read_file w s))))
            else if length s > 100 then (Inr (), store_item w payload ''video_base64'' v)
            else (Inl (ValueError ''Invalid face video, file not found or malformed URL.''), w)
        | _ \<Rightarrow> (Inl TypeError, w))"

definition scan_video_passcode :: "CoreAPI \<Rightarrow> dict \<Rightarrow> world \<Rightarrow> (error + unit) \<times> world" where
  "scan_video_passcode self options w =
     (let p = dict_get options ''biometric_video_passcode'';
          bad = ValueError ''Please provide a 4 digit passcode for video biometric verification.''
      in
      if \<not> truthy w p then (Inl bad, w)
      else case search_arg (re_search passcode_pattern) p of
          Inl e \<Rightarrow> (Inl e, w)
        | Inr found \<Rightarrow>
            if \<not> found then (Inl bad, w)
            else (Inr (), store_item w (config self) ''passcode'' p))"

definition scan_biometric_video :: "CoreAPI \<Rightarrow> dict \<Rightarrow> world \<Rightarrow> (error + unit) \<times> world" where
  "scan_biometric_video self options w =
     (let v = dict_get options ''biometric_video'' in
      if \<not> truthy w v then (Inr (), w)
      else and_then (scan_video_file self v w) (scan_video_passcode self options))"

definition CoreAPI_scan :: "CoreAPI \<Rightarrow> dict \<Rightarrow> reply \<Rightarrow> world \<Rightarrow> (error + pyval) \<times> world" where
  "CoreAPI_scan self options reply w =
     (let payload = config self;
          w0 = store_item w payload ''apikey'' (apikey self)
      in
      and_then (scan_document_primary self options w0) (\<lambda>w1.
      and_then (scan_document_secondary self options w1) (\<lambda>w2.
      and_then (scan_biometric_photo self options w2) (\<lambda>w3.
      and_then (scan_biometric_video self options w3) (\<lambda>w4.
        post_and_check (throw_error self) (apiendpoint self) payload reply w4)))))"

section \<open>\<open>DocuPass\<close>\<close>

definition DocuPass_init ::
  "pyval \<Rightarrow> pyval \<Rightarrow> string \<Rightarrow> world \<Rightarrow> (error + DocuPass) \<times> world" where
  "DocuPass_init key company_name region w =
     (if \<not> truthy w key then (Inl (ValueError ''Please provide an API key''), w)
      else if \<not> truthy w company_name
        then (Inl (ValueError ''Please provide your company name''), w)
      else if region = [] then (Inl (ValueError ''Please set an API region (US, EU)''), w)
      else
        (Inr \<lparr>apikey = key, throw_error = False,
               apiendpoint = select_endpoint ''https://api-eu.idanalyzer.com/''
                               ''https://api.idanalyzer.com/'' region,
               config = DocuPass_DEFAULT_CONFIG\<rparr>,
         store_item w DocuPass_DEFAULT_CONFIG ''companyname'' company_name))"

definition DocuPass_reset_config :: "DocuPass \<Rightarrow> DocuPass" where
  "DocuPass_reset_config self = self\<lparr>config := DocuPass_DEFAULT_CONFIG\<rparr>"

definition DocuPass_set_max_attempt ::
  "DocuPass \<Rightarrow> pyval \<Rightarrow> world \<Rightarrow> (error + unit) \<times> world" where
  "DocuPass_set_max_attempt self max_attempt w =
     (if \<not> in_range max_attempt 1 10
      then (Inl (ValueError ''Invalid max attempt, please specify integer between 1 to 10.''), w)
      else (Inr (), store_item w (config self) ''maxattempt'' max_attempt))"

definition DocuPass_set_callback_url ::
  "DocuPass \<Rightarrow> pyval \<Rightarrow> world \<Rightarrow> (error + unit) \<times> world" where
  "DocuPass_set_callback_url self url w =
     (if \<not> truthy w url then (Inr (), store_item w (config self) ''callbackurl'' url)
      else case search_arg is_valid_url url of
          Inl e \<Rightarrow> (Inl e, w)
        | Inr found \<Rightarrow>
            if \<not> found
            then (Inl (ValueError
                   ''Invalid URL, the host does not appear to be a remote host.''), w)
            else (Inr (), store_item w (config self) ''callbackurl'' url))"

text \<open>\<open>if url and not is_valid_url(url)\<close>, as \<open>set_redirection_url\<close> asks it twice.\<close>

definition bad_url :: "world \<Rightarrow> pyval \<Rightarrow> error + bool" where
  "bad_url w url =
     (if \<not> truthy w url then Inr False
      else case search_arg is_valid_url url of Inl e \<Rightarrow> Inl e | Inr found \<Rightarrow> Inr (\<not> found))"

definition DocuPass_set_redirection_url ::
  "DocuPass \<Rightarrow> pyval \<Rightarrow> pyval \<Rightarrow> world \<Rightarrow> (error + unit) \<times> world" where
  "DocuPass_set_redirection_url self success_url fail_url w =
     (case bad_url w success_url of
        Inl e \<Rightarrow> (Inl e, w)
      | Inr True \<Rightarrow> (Inl (ValueError ''Invalid URL format for success URL''), w)
      | Inr False \<Rightarrow>
          (case bad_url w fail_url of
             Inl e \<Rightarrow> (Inl e, w)
           | Inr True \<Rightarrow> (Inl (ValueError ''Invalid URL format for fail URL''), w)
           | Inr False \<Rightarrow>
               (let w1 = store_item w (config self) ''successredir'' success_url
                in (Inr (), store_item w1 (config self) ''failredir'' fail_url))))"

definition DocuPass_enable_authentication ::
  "DocuPass \<Rightarrow> pyval \<Rightarrow> pyval \<Rightarrow> pyval \<Rightarrow> world \<Rightarrow> (error + unit) \<times> world" where
  "DocuPass_enable_authentication self enabled module' minimum_score w =
     (if \<not> truthy w enabled
      then (Inr (), store_item w (config self) ''authenticate_minscore'' (VInt 0))
      else case num_val minimum_score of
          None \<Rightarrow> (Inl TypeError, w)
        | Some x \<Rightarrow>
            if \<not> (0 < x \<and> x \<le> 1)
            then (Inl (ValueError
                   ''Invalid minimum score, please specify float between 0 to 1.''), w)
            else if truthy w enabled \<and> \<not> eq_int module' 1 \<and> \<not> eq_int module' 2
                    \<and> module' \<noteq> VStr ''quick''
            then (Inl (ValueError
                   ''Invalid authentication module, 1, 2 or 'quick' accepted.''), w)
            else
              (let w1 = store_item w (config self) ''authenticate_module'' module'
               in (Inr (), store_item w1 (config self) ''authenticate_minscore'' minimum_score)))"

definition DocuPass_enable_face_verification ::
  "DocuPass \<Rightarrow> pyval \<Rightarrow> pyval \<Rightarrow> pyval \<Rightarrow> world \<Rightarrow> (error + unit) \<times> world" where
  "DocuPass_enable_face_verification self enabled verification_type threshold w =
     (if \<not> truthy w enabled then (Inr (), store_item w (config self) ''biometric'' (VInt 0))
      else if eq_int verification_type 1 \<or> eq_int verification_type 2
      then
        (let w1 = store_item w (config self) ''biometric'' verification_type
         in (Inr (), store_item w1 (config self) ''biometric_threshold'' threshold))
      else (Inl (ValueError
             ''Invalid verification type, 1 for photo verification, 2 for video verification.''),
            w))"

definition DocuPass_set_qrcode_format ::
  "DocuPass \<Rightarrow> pyval \<Rightarrow> pyval \<Rightarrow> pyval \<Rightarrow> pyval \<Rightarrow> world \<Rightarrow> (error + unit) \<times> world" where
  "DocuPass_set_qrcode_format self foreground_color background_color size' margin w =
     (case search_arg is_hex_color foreground_color of
        Inl e \<Rightarrow> (Inl e, w)
      | Inr False \<Rightarrow> (Inl (ValueError ''Invalid foreground color HEX code''), w)
      | Inr True \<Rightarrow>
          (case search_arg is_hex_color background_color of
             Inl e \<Rightarrow> (Inl e, w)
           | Inr False \<Rightarrow> (Inl (ValueError ''Invalid background color HEX code''), w)
           | Inr True \<Rightarrow>
               if \<not> in_range size' 1 50 then (Inl (ValueError ''Invalid image size (1-50)''), w)
               else if \<not> in_range margin 0 50 then (Inl (ValueError ''Invalid margin (0-50)''), w)
               else
                 (let w1 = store_item w (config self) ''qr_color'' foreground_color;
                      w2 = store_item w1 (config self) ''qr_bgcolor'' background_color;
                      w3 = store_item w2 (config self) ''qr_size'' size'
                  in (Inr (), store_item w3 (config self) ''qr_margin'' margin))))"

definition DocuPass_generate_contract ::
  "DocuPass \<Rightarrow> pyval \<Rightarrow> pyval \<Rightarrow> pyval \<Rightarrow> world \<Rightarrow> (error + unit) \<times> world" where
  "DocuPass_generate_contract self template_id out_format prefill_data w =
     (let prefill = (if prefill_data = VNone then VDict [] else prefill_data) in
      if \<not> truthy w template_id then (Inl (ValueError ''Invalid template ID''), w)
      else
        (let w1 = store_item w (config self) ''contract_sign'' (VStr []);
             w2 = store_item w1 (config self) ''contract_generate'' template_id;
             w3 = store_item w2 (config self) ''contract_format'' out_format
         in (Inr (), store_item w3 (config self) ''contract_prefill_data'' prefill)))"

definition DocuPass_sign_contract ::
  "DocuPass \<Rightarrow> pyval \<Rightarrow> pyval \<Rightarrow> pyval \<Rightarrow> world \<Rightarrow> (error + unit) \<times> world" where
  "DocuPass_sign_contract self template_id out_format prefill_data w =
     (let prefill = (if prefill_data = VNone then VDict [] else prefill_data) in
      if \<not> truthy w template_id then (Inl (ValueError ''Invalid template ID''), w)
      else
        (let w1 = store_item w (config self) ''contract_generate'' (VStr []);
             w2 = store_item w1 (config self) ''contract_sign'' template_id;
             w3 = store_item w2 (config self) ''contract_format'' out_format
         in (Inr (), store_item w3 (config self) ''contract_prefill_data'' prefill)))"

subsection \<open>Creating sessions\<close>








section \<open>\<open>Vault\<close>\<close>

definition Vault_init :: "pyval \<Rightarrow> string \<Rightarrow> world \<Rightarrow> error + Vault" where
  "Vault_init key region w =
     (if \<not> truthy w key then Inl (ValueError ''Please provide an API key'')
      else if region = [] then Inl (ValueError ''Please set an API region (US, EU)'')
      else Inr \<lparr>apikey = key, throw_error = False,
                apiendpoint = select_endpoint ''https://api-eu.idanalyzer.com/''
                                ''https://api.idanalyzer.com/'' region\<rparr>)"

text \<open>
  \<open>Vault.__api(action, payload=None)\<close>. The payload is a reference to a dictionary or
  \<open>None\<close>; an empty or missing one is replaced by a new dictionary, any other is written
  to in place.
\<close>

definition Vault_api ::
  "Vault \<Rightarrow> string \<Rightarrow> nat option \<Rightarrow> reply \<Rightarrow> world \<Rightarrow> (error + pyval) \<times> world" where
  "Vault_api self action payload reply w =
     (let (p, w1) = (case payload of
                       None \<Rightarrow> alloc [] w
                     | Some a \<Rightarrow> if cells w a = [] then alloc [] w else (a, w));
          w2 = store_item w1 p ''apikey'' (apikey self);
          w3 = store_item w2 p ''client'' client_library
      in post_and_check (throw_error self) (apiendpoint self @ ''vault/'' @ action) p reply w3)"


text \<open>\<open>payload[k] = options[k] if options.get(k) else default\<close>, on a dictionary value.\<close>

definition option_or :: "world \<Rightarrow> dict \<Rightarrow> string \<Rightarrow> pyval \<Rightarrow> dict \<Rightarrow> dict" where
  "option_or w options k fallback payload =
     (if truthy w (dict_get options k) then set_item payload k (dict_get options k)
      else set_item payload k fallback)"

definition Vault_list :: "Vault \<Rightarrow> dict \<Rightarrow> reply \<Rightarrow> world \<Rightarrow> (error + pyval) \<times> world" where
  "Vault_list self options reply w =
     (let f = dict_get options ''filter'' in
      if truthy w f \<and> \<not> (case f of VList xs \<Rightarrow> \<not> length xs > 5 | _ \<Rightarrow> False)
      then (Inl (ValueError
             ''Filter must be an array and must not exceed maximum 5 filter strings.''), w)
      else
        (let p0 = (if truthy w f then set_item [] ''filter'' f else []);
             p1 = option_or w options ''orderby'' (VStr ''createtime'') p0;
             p2 = option_or w options ''sort'' (VStr ''DESC'') p1;
             p3 = option_or w options ''limit'' (VInt 10) p2;
             p4 = option_or w options ''offset'' (VInt 0) p3;
             (payload, w1) = alloc p4 w
         in Vault_api self ''list'' (Some payload) reply w1))"

text \<open>
  \<open>Vault.update(vault_id, data)\<close>. A caller's dictionary is an object of the store
  (\<open>VRef\<close>); a dictionary value stands for an object that nobody else holds.
\<close>

definition Vault_update ::
  "Vault \<Rightarrow> pyval \<Rightarrow> pyval \<Rightarrow> reply \<Rightarrow> world \<Rightarrow> (error + pyval) \<times> world" where
  "Vault_update self vault_id data reply w =
     (if \<not> truthy w vault_id then (Inl (ValueError ''Vault entry ID required.''), w)
      else case data of
          VRef a \<Rightarrow>
            if length (cells w a) < 1
            then (Inl (ValueError ''Minimum one set of data required.''), w)
            else Vault_api self ''update'' (Some a) reply (store_item w a ''id'' vault_id)
        | VDict kvs \<Rightarrow>
            if length kvs < 1
            then (Inl (ValueError ''Minimum one set of data required.''), w)
            else
              (let (a, w1) = alloc kvs w
               in Vault_api self ''update'' (Some a) reply (store_item w1 a ''id'' vault_id))
        | _ \<Rightarrow> (Inl (ValueError ''Data needs to be a dictionary.''), w))"







section \<open>\<open>AMLAPI\<close>\<close>


definition AMLAPI_set_aml_database :: "AMLAPI \<Rightarrow> pyval \<Rightarrow> AMLAPI" where
  "AMLAPI_set_aml_database self databases = self\<lparr>AMLDatabases := databases\<rparr>"

definition AMLAPI_set_entity_type :: "AMLAPI \<Rightarrow> pyval \<Rightarrow> error + AMLAPI" where
  "AMLAPI_set_entity_type self entity_type =
     (if entity_type \<noteq> VStr ''person'' \<and> entity_type \<noteq> VStr ''legalentity''
         \<and> entity_type \<noteq> VStr []
      then Inl (ValueError (''Entity Type should be either empty, 'person' or 'legalentity'' @ [CHR 0x27]))
      else Inr (self\<lparr>AMLEntityType := entity_type\<rparr>))"




section \<open>The action methods, as one family\<close>

text \<open>
  Every method of the four classes that sends a request, with its receiver and its
  arguments; \<open>call\<close> runs it against the reply the network gives to its request.
\<close>

datatype action =
    Scan CoreAPI dict
  | CreateSignature DocuPass pyval pyval pyval
  | CreateIframe DocuPass
  | CreateMobile DocuPass
  | CreateRedirection DocuPass
  | CreateLiveMobile DocuPass
  | Validate DocuPass pyval pyval
  | VaultGet Vault pyval
  | VaultList Vault dict
  | VaultUpdate Vault pyval pyval
  | VaultDelete Vault pyval
  | VaultAddImage Vault pyval pyval pyval
  | VaultDeleteImage Vault pyval pyval
  | VaultSearchFace Vault pyval pyval pyval
  | VaultTrainFace Vault
  | VaultTrainingStatus Vault
  | SearchByName AMLAPI string pyval pyval
  | SearchByIdNumber AMLAPI string pyval pyval




section \<open>Example objects\<close>

text \<open>
  A world with no files right after the module is loaded, and one instance of each
  class as its constructor builds it for the key \<open>"key"\<close> and the default region.
\<close>

definition fresh :: world where
  "fresh = module_loaded Map.empty"

definition core :: CoreAPI where
  "core = \<lparr>apikey = VStr ''key'', throw_error = False,
           apiendpoint = ''https://api.idanalyzer.com/'', config = CoreAPI_DEFAULT_CONFIG\<rparr>"

definition docupass :: DocuPass where
  "docupass = \<lparr>apikey = VStr ''key'', throw_error = False,
               apiendpoint = ''https://api.idanalyzer.com/'', config = DocuPass_DEFAULT_CONFIG\<rparr>"

definition vault :: Vault where
  "vault = \<lparr>apikey = VStr ''key'', throw_error = False,
            apiendpoint = ''https://api.idanalyzer.com/''\<rparr>"




text \<open>A reply with status 200 and the body \<^verbatim>\<open>{"success": true}\<close>.\<close>

definition ok_reply :: reply where
  "ok_reply = Response 200 (Some (VDict [(''success'', VBool True)]))"

text \<open>A world in which the caller holds one dictionary, at address 2.\<close>

definition caller_world :: world where
  "caller_world = snd (alloc [(''docupass_customid'', VStr ''abc'')] fresh)"

section \<open>The image classification as the specification words it\<close>




section \<open>Properties\<close>

subsection \<open>The example objects are what the constructors build\<close>

lemma upper_US: "upper ''US'' = ''US''"
  by (simp add: upper_def upper_cp_def lower_az_def upper_AZ_def)


lemma vault_is_constructed: "Vault_init (VStr ''key'') ''US'' fresh = Inr vault"
  by (simp add: Vault_init_def select_endpoint_def upper_US vault_def)

lemma docupass_is_constructed:
  "fst (DocuPass_init (VStr ''key'') (VStr ''My Company Name'') ''US'' fresh) = Inr docupass"
  by (simp add: DocuPass_init_def select_endpoint_def upper_US docupass_def)

subsection \<open>Setters that fail\<close>

text \<open>
  C2. Claim: a setter that raises a validation error leaves the configuration as it
  was. \<open>CoreAPI.enable_authentication\<close> assigns \<open>authenticate\<close> before it checks the module:
  called with \<open>enabled=True, module=3\<close> on a new instance it raises \<open>ValueError\<close>, and the
  configuration, where \<open>authenticate\<close> was \<open>False\<close>, now holds \<open>True\<close>.
\<close>

theorem CoreAPI_enable_authentication_mutates_on_error:
  "fst (CoreAPI_enable_authentication core (VBool True) (VInt 3) fresh) =
     Inl (ValueError ''Invalid authentication module, 1, 2 or 'quick' accepted.'') \<and>
   dict_get (cells fresh (config core)) ''authenticate'' = VBool False \<and>
   dict_get (cells (snd (CoreAPI_enable_authentication core (VBool True) (VInt 3) fresh))
              (config core)) ''authenticate'' = VBool True"
  by (simp add: CoreAPI_enable_authentication_def Let_def store_item_def module_loaded_def
      fresh_def core_def CoreAPI_DEFAULT_CONFIG_def CoreAPI_defaults_def set_item_def
      dict_get_def is_True_def)

text \<open>
  The sibling \<open>DocuPass.enable_authentication\<close> checks first: when it raises, the world is
  the one it was given.
\<close>

lemma DocuPass_enable_authentication_atomic:
  "DocuPass_enable_authentication self enabled module' minimum_score w = (Inl e, w') \<Longrightarrow> w' = w"
  by (auto simp: DocuPass_enable_authentication_def Let_def split: if_splits option.splits)

subsection \<open>Resetting the configuration\<close>

text \<open>
  C4. Claim: \<open>reset_config\<close> restores the default values. The instance's \<open>config\<close> is the
  class-level dictionary itself, so a setter writes into the defaults and \<open>reset_config\<close>
  assigns the same object again: after \<open>set_accuracy(0)\<close> and \<open>reset_config()\<close> the
  configuration still holds accuracy 0, where the documented default is 2.
\<close>

theorem CoreAPI_reset_config_keeps_setter_value:
  "dict_get CoreAPI_defaults ''accuracy'' = VInt 2 \<and>
   CoreAPI_reset_config core = core \<and>
   dict_get (cells (snd (CoreAPI_set_accuracy core (VInt 0) fresh))
              (config (CoreAPI_reset_config core))) ''accuracy'' = VInt 0"
  by (simp add: CoreAPI_reset_config_def CoreAPI_set_accuracy_def store_item_def
      module_loaded_def fresh_def core_def CoreAPI_DEFAULT_CONFIG_def CoreAPI_defaults_def
      set_item_def dict_get_def)

subsection \<open>Formats checked by a pattern\<close>

text \<open>
  C6. Claim: the QR-code colour setter accepts every colour code of six hexadecimal
  digits, such as its documented defaults. \<open>is_hex_color\<close> demands a leading \<open>#\<close>, so the
  call \<open>set_qrcode_format("000000", "FFFFFF", 5, 1)\<close>, which is the call with all the
  default arguments, raises \<open>ValueError\<close> and stores nothing.
\<close>

theorem DocuPass_set_qrcode_format_rejects_defaults:
  "DocuPass_set_qrcode_format self (VStr ''000000'') (VStr ''FFFFFF'') (VInt 5) (VInt 1) w =
     (Inl (ValueError ''Invalid foreground color HEX code''), w)"
  by (simp add: DocuPass_set_qrcode_format_def search_arg_def is_hex_color_def re_search_def
      hex_color_pattern_def)

subsection \<open>What every action method does with the reply\<close>

text \<open>
  A call has sent its request iff the log \<open>posted\<close> has grown. Every method that sends
  one ends in \<open>post_and_check\<close>; before that point it only raises errors of its own.
\<close>

lemma posted_store_item [simp]: "posted (store_item w a k v) = posted w"
  by (simp add: store_item_def)

lemma posted_alloc [simp]: "posted (snd (alloc d w)) = posted w"
  by (simp add: alloc_def)


lemma and_then_cases:
  "and_then r f = (case fst r of Inl e \<Rightarrow> (Inl e, snd r) | Inr u \<Rightarrow> f (snd r))"
  by (cases r) (auto simp: and_then_def split: sum.splits)

lemma posted_scan_document_primary [simp]:
  "posted (snd (scan_document_primary self options w)) = posted w"
  by (simp add: scan_document_primary_def Let_def split: pyval.splits)

lemma posted_scan_document_secondary [simp]:
  "posted (snd (scan_document_secondary self options w)) = posted w"
  by (simp add: scan_document_secondary_def Let_def split: pyval.splits)

lemma posted_scan_biometric_photo [simp]:
  "posted (snd (scan_biometric_photo self options w)) = posted w"
  by (simp add: scan_biometric_photo_def Let_def split: pyval.splits)

lemma posted_scan_video_file [simp]:
  "posted (snd (scan_video_file self v w)) = posted w"
  by (simp add: scan_video_file_def Let_def split: pyval.splits)

lemma posted_scan_video_passcode [simp]:
  "posted (snd (scan_video_passcode self options w)) = posted w"
  by (simp add: scan_video_passcode_def Let_def search_arg_def split: pyval.splits sum.splits)

lemma posted_scan_biometric_video [simp]:
  "posted (snd (scan_biometric_video self options w)) = posted w"
  by (simp add: scan_biometric_video_def Let_def and_then_cases split: sum.splits)

























subsection \<open>Updating a vault entry\<close>

lemma map_of_set_item [simp]: "map_of (set_item d k v) = (map_of d)(k \<mapsto> v)"
  by (simp add: set_item_def update_conv')

lemma set_item_nonempty [simp]: "set_item d k v \<noteq> []"
  by (cases d) (simp_all add: set_item_def)

lemma cells_post_and_check [simp]:
  "cells (snd (post_and_check throw url p reply w)) = cells w"
  by (simp add: post_and_check_def requests_post_def Let_def split: reply.splits option.splits)

lemma posted_post_and_check [simp]:
  "posted (snd (post_and_check throw url p reply w)) = posted w @ [(url, cells w p)]"
  by (simp add: post_and_check_def requests_post_def Let_def split: reply.splits option.splits)

lemma Vault_api_in_place:
  assumes "cells w a \<noteq> []"
  shows "cells (snd (Vault_api self action (Some a) reply w)) a =
           set_item (set_item (cells w a) ''apikey'' (apikey self)) ''client'' client_library"
    and "posted (snd (Vault_api self action (Some a) reply w)) =
           posted w @ [(apiendpoint self @ ''vault/'' @ action,
                        cells (snd (Vault_api self action (Some a) reply w)) a)]"
  using assms by (simp_all add: Vault_api_def Let_def store_item_def)

text \<open>
  C10. \<open>Vault.update\<close> writes into the dictionary object the caller handed over: after a
  call that returns, that object holds \<open>id\<close> (the \<open>vault_id\<close>), \<open>apikey\<close> and \<open>client\<close>, keeps
  its other entries, and is what was sent. With an empty \<open>vault_id\<close>, with \<open>data\<close> that is not a
  dictionary, or with an empty dictionary, the call raises \<open>ValueError\<close> and the world is
  untouched (so nothing was sent).
\<close>

theorem Vault_update_writes_into_callers_dict:
  "(Vault_update self vault_id (VRef a) reply w = (Inr r, w') \<longrightarrow>
      map_of (cells w' a) ''id'' = Some vault_id \<and>
      map_of (cells w' a) ''apikey'' = Some (apikey self) \<and>
      map_of (cells w' a) ''client'' = Some client_library \<and>
      (\<forall>k. k \<notin> {''id'', ''apikey'', ''client''} \<longrightarrow> map_of (cells w' a) k = map_of (cells w a) k) \<and>
      posted w' = posted w @ [(apiendpoint self @ ''vault/update'', cells w' a)]) \<and>
   (\<not> truthy w vault_id \<longrightarrow>
      Vault_update self vault_id data reply w = (Inl (ValueError ''Vault entry ID required.''), w)) \<and>
   (truthy w vault_id \<and> (\<forall>b. data \<noteq> VRef b) \<and> (\<forall>kvs. data \<noteq> VDict kvs) \<longrightarrow>
      Vault_update self vault_id data reply w =
        (Inl (ValueError ''Data needs to be a dictionary.''), w)) \<and>
   (truthy w vault_id \<and> (data = VDict [] \<or> (\<exists>b. data = VRef b \<and> cells w b = [])) \<longrightarrow>
      Vault_update self vault_id data reply w =
        (Inl (ValueError ''Minimum one set of data required.''), w))"
proof -
  have ok: "map_of (cells w' a) ''id'' = Some vault_id \<and>
      map_of (cells w' a) ''apikey'' = Some (apikey self) \<and>
      map_of (cells w' a) ''client'' = Some client_library \<and>
      (\<forall>k. k \<notin> {''id'', ''apikey'', ''client''} \<longrightarrow> map_of (cells w' a) k = map_of (cells w a) k) \<and>
      posted w' = posted w @ [(apiendpoint self @ ''vault/update'', cells w' a)]"
    if run: "Vault_update self vault_id (VRef a) reply w = (Inr r, w')"
  proof -
    let ?w1 = "store_item w a ''id'' vault_id"
    from run have w': "w' = snd (Vault_api self ''update'' (Some a) reply ?w1)"
      by (auto simp: Vault_update_def split: if_splits)
    have ne: "cells ?w1 a \<noteq> []" by (simp add: store_item_def)
    have c: "cells w' a =
        set_item (set_item (set_item (cells w a) ''id'' vault_id) ''apikey'' (apikey self))
          ''client'' client_library"
      unfolding w' Vault_api_in_place(1) [OF ne] by (simp add: store_item_def)
    have p: "posted w' = posted w @ [(apiendpoint self @ ''vault/update'', cells w' a)]"
      unfolding w' using Vault_api_in_place(2) [OF ne, of self "''update''" reply]
      by (simp add: store_item_def)
    show ?thesis using p unfolding c by simp
  qed
  have bad: "\<not> truthy w vault_id \<Longrightarrow>
      Vault_update self vault_id data reply w = (Inl (ValueError ''Vault entry ID required.''), w)"
    by (simp add: Vault_update_def)
  have nodict: "truthy w vault_id \<Longrightarrow> (\<forall>b. data \<noteq> VRef b) \<Longrightarrow> (\<forall>kvs. data \<noteq> VDict kvs) \<Longrightarrow>
      Vault_update self vault_id data reply w =
        (Inl (ValueError ''Data needs to be a dictionary.''), w)"
    by (cases data) (simp_all add: Vault_update_def)
  have empty: "truthy w vault_id \<Longrightarrow> data = VDict [] \<or> (\<exists>b. data = VRef b \<and> cells w b = []) \<Longrightarrow>
      Vault_update self vault_id data reply w =
        (Inl (ValueError ''Minimum one set of data required.''), w)"
    by (auto simp: Vault_update_def)
  from ok bad nodict empty show ?thesis by blast
qed

text \<open>The definitions that evaluate \<open>update\<close> on the example objects.\<close>

lemmas update_eval = Vault_update_def Vault_api_def alloc_def post_and_check_def Let_def
  raise_for_status_def check_result_def requests_post_def store_item_def fresh_def
  module_loaded_def vault_def ok_reply_def caller_world_def set_item_def client_library_def

text \<open>The caller's dictionary \<^verbatim>\<open>{"docupass_customid": "abc"}\<close> after \<open>update("id1", data)\<close>.\<close>

theorem Vault_update_writes_into_callers_dict_witness:
  "cells (snd (Vault_update vault (VStr ''id1'') (VRef 2) ok_reply caller_world)) 2 =
     [(''docupass_customid'', VStr ''abc''), (''id'', VStr ''id1''), (''apikey'', VStr ''key''),
      (''client'', VStr ''python-sdk'')] \<and>
   map_of (cells (snd (Vault_update vault (VStr ''id1'') (VRef 2) ok_reply caller_world)) 2)
     ''id'' = Some (VStr ''id1'') \<and>
   Vault_update vault (VStr []) (VRef 2) ok_reply caller_world =
     (Inl (ValueError ''Vault entry ID required.''), caller_world) \<and>
   Vault_update vault (VStr ''id1'') (VInt 3) ok_reply caller_world =
     (Inl (ValueError ''Data needs to be a dictionary.''), caller_world) \<and>
   Vault_update vault (VStr ''id1'') (VDict []) ok_reply caller_world =
     (Inl (ValueError ''Minimum one set of data required.''), caller_world)"
proof -
  let ?run = "Vault_update vault (VStr ''id1'') (VRef 2) ok_reply caller_world"
  have "fst ?run = Inr (VDict [(''success'', VBool True)])"
    by (simp add: update_eval)
  then have run: "?run = (Inr (VDict [(''success'', VBool True)]), snd ?run)"
    by (metis prod.collapse)
  have t1: "\<not> truthy caller_world (VStr [])" by simp
  have t2: "truthy caller_world (VStr ''id1'') \<and> (\<forall>b. VInt 3 \<noteq> VRef b) \<and> (\<forall>kvs. VInt 3 \<noteq> VDict kvs)"
    by simp
  have t3: "truthy caller_world (VStr ''id1'') \<and>
            (VDict [] = VDict [] \<or> (\<exists>b. VDict [] = VRef b \<and> cells caller_world b = []))"
    by simp
  from Vault_update_writes_into_callers_dict
         [of vault "VStr ''id1''" 2 ok_reply caller_world "VDict [(''success'', VBool True)]"
             "snd ?run" "VRef 2"] run
  have a: "map_of (cells (snd ?run) 2) ''id'' = Some (VStr ''id1'')"
    by blast
  from Vault_update_writes_into_callers_dict
         [of vault "VStr []" 2 ok_reply caller_world "VDict [(''success'', VBool True)]"
             "snd ?run" "VRef 2"] t1
  have f: "Vault_update vault (VStr []) (VRef 2) ok_reply caller_world =
     (Inl (ValueError ''Vault entry ID required.''), caller_world)"
    by blast
  from Vault_update_writes_into_callers_dict
         [of vault "VStr ''id1''" 2 ok_reply caller_world "VDict [(''success'', VBool True)]"
             "snd ?run" "VInt 3"] t2
  have c: "Vault_update vault (VStr ''id1'') (VInt 3) ok_reply caller_world =
     (Inl (ValueError ''Data needs to be a dictionary.''), caller_world)"
    by blast
  from Vault_update_writes_into_callers_dict
         [of vault "VStr ''id1''" 2 ok_reply caller_world "VDict [(''success'', VBool True)]"
             "snd ?run" "VDict []"] t3
  have d: "Vault_update vault (VStr ''id1'') (VDict []) ok_reply caller_world =
     (Inl (ValueError ''Minimum one set of data required.''), caller_world)"
    by blast
  have e: "cells (snd ?run) 2 =
     [(''docupass_customid'', VStr ''abc''), (''id'', VStr ''id1''), (''apikey'', VStr ''key''),
      (''client'', VStr ''python-sdk'')]"
    by (simp add: update_eval)
  from a c d e f show ?thesis by simp
qed

subsection \<open>Listing the vault\<close>

text \<open>The value sent for an option: the caller's when it is truthy, the default otherwise.\<close>

lemma option_or_new:
  "k \<notin> fst ` set payload \<Longrightarrow>
   option_or w options k d payload =
     payload @ [(k, if truthy w (dict_get options k) then dict_get options k else d)]"
  by (induction payload) (auto simp: option_or_def set_item_def)

text \<open>
  C5, as amended. A truthy \<open>filter\<close> that is not a list of at most 5 entries raises
  \<open>ValueError\<close> and leaves the world untouched. Otherwise the request carries: \<open>filter\<close> when
  it is truthy; \<open>orderby\<close>, \<open>sort\<close>, \<open>limit\<close> and \<open>offset\<close>, each with the caller's value when that
  is truthy and with \<open>"createtime"\<close>, \<open>"DESC"\<close>, 10 and 0 otherwise; \<open>apikey\<close> and \<open>client\<close>;
  and nothing else. The values go out as they came in.
\<close>

theorem Vault_list_request:
  "(truthy w (dict_get options ''filter'') \<and>
    \<not> (\<exists>xs. dict_get options ''filter'' = VList xs \<and> length xs \<le> 5) \<longrightarrow>
      Vault_list self options reply w =
        (Inl (ValueError
          ''Filter must be an array and must not exceed maximum 5 filter strings.''), w)) \<and>
   (\<not> (truthy w (dict_get options ''filter'') \<and>
       \<not> (\<exists>xs. dict_get options ''filter'' = VList xs \<and> length xs \<le> 5)) \<longrightarrow>
      posted (snd (Vault_list self options reply w)) =
        posted w @
        [(apiendpoint self @ ''vault/list'',
          (if truthy w (dict_get options ''filter'')
           then [(''filter'', dict_get options ''filter'')] else []) @
          [(''orderby'', if truthy w (dict_get options ''orderby'')
                         then dict_get options ''orderby'' else VStr ''createtime''),
           (''sort'', if truthy w (dict_get options ''sort'')
                      then dict_get options ''sort'' else VStr ''DESC''),
           (''limit'', if truthy w (dict_get options ''limit'')
                       then dict_get options ''limit'' else VInt 10),
           (''offset'', if truthy w (dict_get options ''offset'')
                        then dict_get options ''offset'' else VInt 0),
           (''apikey'', apikey self),
           (''client'', client_library)])])"
proof -
  let ?f = "dict_get options ''filter''"
  have rej: "Vault_list self options reply w =
        (Inl (ValueError
          ''Filter must be an array and must not exceed maximum 5 filter strings.''), w)"
    if "truthy w ?f" "\<not> (\<exists>xs. ?f = VList xs \<and> length xs \<le> 5)"
    using that by (cases ?f) (auto simp: Vault_list_def Let_def)
  have acc: "posted (snd (Vault_list self options reply w)) =
        posted w @
        [(apiendpoint self @ ''vault/list'',
          (if truthy w ?f then [(''filter'', ?f)] else []) @
          [(''orderby'', if truthy w (dict_get options ''orderby'')
                         then dict_get options ''orderby'' else VStr ''createtime''),
           (''sort'', if truthy w (dict_get options ''sort'')
                      then dict_get options ''sort'' else VStr ''DESC''),
           (''limit'', if truthy w (dict_get options ''limit'')
                       then dict_get options ''limit'' else VInt 10),
           (''offset'', if truthy w (dict_get options ''offset'')
                        then dict_get options ''offset'' else VInt 0),
           (''apikey'', apikey self),
           (''client'', client_library)])]"
    if ok: "\<not> (truthy w ?f \<and> \<not> (\<exists>xs. ?f = VList xs \<and> length xs \<le> 5))"
  proof -
    have guard: "\<not> (truthy w ?f \<and> \<not> (case ?f of VList xs \<Rightarrow> \<not> length xs > 5 | _ \<Rightarrow> False))"
      using ok by (cases ?f) auto
    show ?thesis
      using guard
      by (simp add: Vault_list_def Let_def option_or_new Vault_api_def alloc_def store_item_def
          set_item_def del: truthy.simps split: prod.splits)
  qed
  from rej acc show ?thesis by blast
qed

text \<open>The definitions that evaluate \<open>list\<close> on the example objects.\<close>

lemmas list_eval = Vault_list_def Vault_api_def alloc_def post_and_check_def Let_def
  raise_for_status_def check_result_def requests_post_def store_item_def fresh_def
  module_loaded_def vault_def ok_reply_def set_item_def client_library_def dict_get_def
  option_or_def

text \<open>Six filter statements are refused; one filter and a limit of 25 are sent.\<close>

theorem Vault_list_request_witness:
  "Vault_list vault
     [(''filter'', VList [VStr ''a=1'', VStr ''b=2'', VStr ''c=3'', VStr ''d=4'', VStr ''e=5'',
                          VStr ''f=6''])] ok_reply fresh =
     (Inl (ValueError
        ''Filter must be an array and must not exceed maximum 5 filter strings.''), fresh) \<and>
   posted (snd (Vault_list vault [(''filter'', VList [VStr ''a=1'']), (''limit'', VInt 25)]
                  ok_reply fresh)) =
     [(''https://api.idanalyzer.com/vault/list'',
       [(''filter'', VList [VStr ''a=1'']), (''orderby'', VStr ''createtime''),
        (''sort'', VStr ''DESC''), (''limit'', VInt 25), (''offset'', VInt 0),
        (''apikey'', VStr ''key''), (''client'', VStr ''python-sdk'')])]"
proof -
  let ?six = "[(''filter'', VList [VStr ''a=1'', VStr ''b=2'', VStr ''c=3'', VStr ''d=4'',
                                   VStr ''e=5'', VStr ''f=6''])]"
  let ?one = "[(''filter'', VList [VStr ''a=1'']), (''limit'', VInt 25)]"
  have h1: "truthy fresh (dict_get ?six ''filter'') \<and>
            \<not> (\<exists>xs. dict_get ?six ''filter'' = VList xs \<and> length xs \<le> 5)"
    by (simp add: dict_get_def)
  have h2: "\<not> (truthy fresh (dict_get ?one ''filter'') \<and>
               \<not> (\<exists>xs. dict_get ?one ''filter'' = VList xs \<and> length xs \<le> 5))"
    by (simp add: dict_get_def)
  from Vault_list_request [of fresh ?six vault ok_reply] h1
  have a: "Vault_list vault ?six ok_reply fresh =
     (Inl (ValueError
        ''Filter must be an array and must not exceed maximum 5 filter strings.''), fresh)"
    by blast
  from Vault_list_request [of fresh ?one vault ok_reply] h2
  have b: "posted (snd (Vault_list vault ?one ok_reply fresh)) =
        posted fresh @
        [(apiendpoint vault @ ''vault/list'',
          (if truthy fresh (dict_get ?one ''filter'')
           then [(''filter'', dict_get ?one ''filter'')] else []) @
          [(''orderby'', if truthy fresh (dict_get ?one ''orderby'')
                         then dict_get ?one ''orderby'' else VStr ''createtime''),
           (''sort'', if truthy fresh (dict_get ?one ''sort'')
                      then dict_get ?one ''sort'' else VStr ''DESC''),
           (''limit'', if truthy fresh (dict_get ?one ''limit'')
                       then dict_get ?one ''limit'' else VInt 10),
           (''offset'', if truthy fresh (dict_get ?one ''offset'')
                        then dict_get ?one ''offset'' else VInt 0),
           (''apikey'', apikey vault),
           (''client'', client_library)])]"
    by blast
  show ?thesis
    using a b by (simp add: dict_get_def vault_def fresh_def module_loaded_def client_library_def)
qed

text \<open>
  C5 as stated promises an error for every \<open>filter\<close> that is not a list, and the caller's
  values in the payload. An empty string as \<open>filter\<close> passes (and is left out), and a
  \<open>limit\<close> of 0 is replaced by 10: the code tests truthiness, not presence.
\<close>

theorem Vault_list_falsy_options_counterexample:
  "fst (Vault_list vault [(''filter'', VStr []), (''limit'', VInt 0)] ok_reply fresh) =
     Inr (VDict [(''success'', VBool True)]) \<and>
   posted (snd (Vault_list vault [(''filter'', VStr []), (''limit'', VInt 0)] ok_reply fresh)) =
     [(''https://api.idanalyzer.com/vault/list'',
       [(''orderby'', VStr ''createtime''), (''sort'', VStr ''DESC''), (''limit'', VInt 10),
        (''offset'', VInt 0), (''apikey'', VStr ''key''), (''client'', VStr ''python-sdk'')])]"
  by (simp add: list_eval)

subsection \<open>Classifying an image argument\<close>






subsection \<open>What a scan leaves behind\<close>


























lemma files_store_item [simp]: "files (store_item w a k v) = files w"
  by (simp add: store_item_def)

lemma files_post_and_check [simp]: "files (snd (post_and_check throw url p reply w)) = files w"
  by (simp add: post_and_check_def requests_post_def Let_def split: reply.splits option.splits)

lemma files_primary [simp]: "files (snd (scan_document_primary self options w)) = files w"
  by (simp add: scan_document_primary_def Let_def split: pyval.splits)

lemma files_secondary [simp]: "files (snd (scan_document_secondary self options w)) = files w"
  by (simp add: scan_document_secondary_def Let_def split: pyval.splits)

lemma files_photo [simp]: "files (snd (scan_biometric_photo self options w)) = files w"
  by (simp add: scan_biometric_photo_def Let_def split: pyval.splits)

lemma files_video_file [simp]: "files (snd (scan_video_file self v w)) = files w"
  by (simp add: scan_video_file_def Let_def split: pyval.splits)

lemma files_passcode [simp]: "files (snd (scan_video_passcode self options w)) = files w"
  by (simp add: scan_video_passcode_def Let_def search_arg_def split: pyval.splits sum.splits)

lemma files_video [simp]: "files (snd (scan_biometric_video self options w)) = files w"
  by (simp add: scan_biometric_video_def Let_def and_then_cases split: sum.splits)

lemma files_scan [simp]: "files (snd (CoreAPI_scan self options reply w)) = files w"
  by (simp add: CoreAPI_scan_def Let_def and_then_cases split: sum.splits)



subsection \<open>Choosing the endpoint\<close>
























subsection \<open>The other validated setters\<close>

text \<open>
  Every other setter that validates does so before its first assignment: when it raises,
  the world is the one it was given.
\<close>

lemma CoreAPI_setters_atomic:
  "CoreAPI_set_ocr_image_resize self v w = (Inl e, w') \<Longrightarrow> w' = w"
  "CoreAPI_set_biometric_threshold self v w = (Inl e, w') \<Longrightarrow> w' = w"
  "CoreAPI_enable_image_output self a b c w = (Inl e, w') \<Longrightarrow> w' = w"
  "CoreAPI_generate_contract self a b c w = (Inl e, w') \<Longrightarrow> w' = w"
  "verify_dob self v w = (Inl e, w') \<Longrightarrow> w' = w"
  "verify_age self v w = (Inl e, w') \<Longrightarrow> w' = w"
  by (auto simp: CoreAPI_set_ocr_image_resize_def CoreAPI_set_biometric_threshold_def
      CoreAPI_enable_image_output_def CoreAPI_generate_contract_def verify_dob_def
      verify_age_def Let_def split: if_splits option.splits sum.splits)

lemma DocuPass_setters_atomic:
  "DocuPass_set_max_attempt self v w = (Inl e, w') \<Longrightarrow> w' = w"
  "DocuPass_set_callback_url self v w = (Inl e, w') \<Longrightarrow> w' = w"
  "DocuPass_set_redirection_url self a b w = (Inl e, w') \<Longrightarrow> w' = w"
  "DocuPass_enable_face_verification self a b c w = (Inl e, w') \<Longrightarrow> w' = w"
  "DocuPass_set_qrcode_format self a b c d w = (Inl e, w') \<Longrightarrow> w' = w"
  "DocuPass_generate_contract self a b c w = (Inl e, w') \<Longrightarrow> w' = w"
  "DocuPass_sign_contract self a b c w = (Inl e, w') \<Longrightarrow> w' = w"
  by (auto simp: DocuPass_set_max_attempt_def DocuPass_set_callback_url_def
      DocuPass_set_redirection_url_def DocuPass_enable_face_verification_def
      DocuPass_set_qrcode_format_def DocuPass_generate_contract_def DocuPass_sign_contract_def
      Let_def split: if_splits option.splits sum.splits bool.splits)

subsection \<open>Inputs that the patterns accept\<close>

lemma hash_colours_accepted: "is_hex_color ''#000000''" "is_hex_color ''#FFFFFF''"
  by code_simp+

lemma sample_formats_accepted:
  "re_search dob_pattern ''1990/01/31''" "re_search age_pattern ''18-40''"
  "\<not> re_search dob_pattern ''1990-01-31''" "\<not> re_search age_pattern ''18 to 40''"
  by code_simp+

lemma DocuPass_set_qrcode_format_with_hash:
  "fst (DocuPass_set_qrcode_format docupass (VStr ''#000000'') (VStr ''#FFFFFF'') (VInt 5)
         (VInt 1) fresh) = Inr ()"
  by (simp add: DocuPass_set_qrcode_format_def search_arg_def hash_colours_accepted in_range_def
      Let_def upto.simps)

lemma size_50_rejected:
  "fst (DocuPass_set_qrcode_format docupass (VStr ''#000000'') (VStr ''#FFFFFF'') (VInt 50)
         (VInt 1) fresh) = Inl (ValueError ''Invalid image size (1-50)'')"
  by (simp add: DocuPass_set_qrcode_format_def search_arg_def hash_colours_accepted in_range_def
      Let_def list_ex_iff)

end
